theory Spec2Isabelle
  imports Complex_Main
begin

section \<open>Shared vocabulary\<close>

text \<open>
  Document ids (Mongo ObjectIds) are natural numbers, dates are milliseconds since the
  epoch (what \<^verbatim>\<open>Date\<close> arithmetic yields in JavaScript), and quantities, weights and
  amounts are integers. Every \<^verbatim>\<open>new Date()\<close> of the source is the explicit argument
  \<open>now\<close> of the operation.
\<close>

type_synonym object_id = nat
type_synonym date = int

text \<open>
  The controllers answer with an HTTP status and a message. The error values below name
  those answers after the error taxonomy of the specification:
  \<^item> \<open>NotFound\<close>: 404;
  \<^item> \<open>Forbidden\<close>: 403 (the authorization checks);
  \<^item> \<open>ValidationError\<close>: 400 \<^verbatim>\<open>Quantity must be greater than 0\<close>,
    \<^verbatim>\<open>Cannot release more than reserved quantity\<close>, \<^verbatim>\<open>Invalid driver selected\<close>,
    and a Mongoose schema validator rejecting a \<^verbatim>\<open>save()\<close>;
  \<^item> \<open>InvalidTransition\<close>: 400 \<^verbatim>\<open>Cannot cancel order with current status\<close>,
    \<^verbatim>\<open>Route must be in progress to complete\<close>;
  \<^item> \<open>VehicleUnavailable\<close>: 400 \<^verbatim>\<open>Vehicle is not available\<close>;
  \<^item> \<open>CapacityExceeded\<close>: 400 \<^verbatim>\<open>Vehicle capacity insufficient for this order\<close>;
  \<^item> \<open>InsufficientStock\<close>: 400 \<^verbatim>\<open>Insufficient stock for this movement\<close> and the
    exception \<^verbatim>\<open>Insufficient stock available for reservation\<close>;
  \<^item> \<open>TypeError\<close>: the JavaScript exception of reading a property of \<^verbatim>\<open>undefined\<close>,
    which reaches the controller's \<^verbatim>\<open>catch\<close>.
\<close>

datatype error =
    NotFound
  | Forbidden
  | ValidationError
  | InvalidTransition
  | VehicleUnavailable
  | CapacityExceeded
  | InsufficientStock
  | TypeError

text \<open>models/User.js, the \<^verbatim>\<open>role\<close> enum; \<open>req.user\<close> is a record of this type.\<close>

datatype role = Admin | Driver | FleetManager | Producer | Wholesaler | Retailer

record user =
  user_id :: object_id
  user_role :: role


section \<open>Inventory ledger (the Inventory model and controllers/inventory.js)\<close>

text \<open>
  The Inventory schema, its pre-save hook and its methods are the second module of
  models/Route.js (from line 458 on); the controllers are in controllers/inventory.js.
\<close>

text \<open>The \<^verbatim>\<open>movements.type\<close> enum of the Inventory schema.\<close>

datatype movement_type = In | Out | Transfer | Adjustment | Damaged | Expired | Lost

record movement =
  mv_type :: movement_type
  mv_quantity :: int
  mv_reason :: string
  mv_user :: object_id
  mv_reference :: "string option"
  mv_notes :: "string option"
  mv_timestamp :: date

text \<open>The \<^verbatim>\<open>status\<close> enum of the Inventory schema.\<close>

datatype inventory_status = Active | Inactive | Discontinued | OutOfStock | LowStock

text \<open>
  The fields of an Inventory document that the ledger operations read or write. The
  schema's \<^verbatim>\<open>min: 0\<close> validators on \<^verbatim>\<open>stock.current\<close>, \<^verbatim>\<open>stock.reserved\<close> and
  \<^verbatim>\<open>stock.available\<close> are what a stored document satisfies; theorems that need them
  take them as hypotheses on the starting document.
\<close>

record inventory =
  inv_owner :: object_id
  stock_current :: int
  stock_reserved :: int
  stock_available :: int
  stock_reorderPoint :: int
  inv_status :: inventory_status
  movements :: "movement list"
  analytics_totalIn :: int
  analytics_totalOut :: int
  analytics_lastSoldDate :: "date option"
  audit_lastModifiedAt :: "date option"
  audit_version :: int

text \<open>The virtual \<^verbatim>\<open>stockAvailable\<close>.\<close>

definition stockAvailable :: "inventory \<Rightarrow> int" where
  "stockAvailable it = max 0 (stock_current it - stock_reserved it)"

text \<open>
  \<^verbatim>\<open>InventorySchema.pre('save')\<close>. The ledger methods run it on a document that was
  loaded from the store and has just been modified (each of them pushes a movement), so
  \<^verbatim>\<open>this.isModified() && !this.isNew\<close> holds and the audit trail is updated.
\<close>

definition pre_save :: "date \<Rightarrow> inventory \<Rightarrow> inventory" where
  "pre_save now it =
     (let available = max 0 (stock_current it - stock_reserved it);
          status =
            (if available \<le> 0 then OutOfStock
             else if available \<le> stock_reorderPoint it then LowStock
             else if inv_status it = OutOfStock \<or> inv_status it = LowStock then Active
             else inv_status it)
      in it\<lparr>stock_available := available,
              inv_status := status,
              audit_lastModifiedAt := Some now,
              audit_version := audit_version it + 1\<rparr>)"

text \<open>The decrease kinds: \<^verbatim>\<open>['out', 'damaged', 'expired', 'lost'].includes(type)\<close>.\<close>

definition outbound :: "movement_type \<Rightarrow> bool" where
  "outbound ty = (ty = Out \<or> ty = Damaged \<or> ty = Expired \<or> ty = Lost)"

text \<open>\<^verbatim>\<open>InventorySchema.methods.addMovement\<close>; the result is the saved document.\<close>

definition inventory_addMovement ::
  "movement_type \<Rightarrow> int \<Rightarrow> string \<Rightarrow> object_id \<Rightarrow> string option \<Rightarrow> string option \<Rightarrow>
   date \<Rightarrow> inventory \<Rightarrow> inventory" where
  "inventory_addMovement ty quantity reason usr reference notes now it =
     (let movement = \<lparr>mv_type = ty, mv_quantity = \<bar>quantity\<bar>, mv_reason = reason,
                       mv_user = usr, mv_reference = reference, mv_notes = notes,
                       mv_timestamp = now\<rparr>;
          it1 = it\<lparr>movements := movements it @ [movement]\<rparr>;
          it2 =
            (if ty = In \<or> (ty = Adjustment \<and> quantity > 0) then
               it1\<lparr>stock_current := stock_current it1 + \<bar>quantity\<bar>,
                    analytics_totalIn := analytics_totalIn it1 + \<bar>quantity\<bar>\<rparr>
             else if outbound ty \<or> (ty = Adjustment \<and> quantity < 0) then
               it1\<lparr>stock_current := max 0 (stock_current it1 - \<bar>quantity\<bar>),
                    analytics_totalOut := analytics_totalOut it1 + \<bar>quantity\<bar>,
                    analytics_lastSoldDate :=
                      (if ty = Out then Some now else analytics_lastSoldDate it1)\<rparr>
             else it1)
      in pre_save now it2)"

text \<open>
  \<^verbatim>\<open>InventorySchema.methods.reserveStock\<close>: the \<^verbatim>\<open>throw\<close> is the error
  \<open>InsufficientStock\<close>, raised before anything is written.
\<close>

definition inventory_reserveStock ::
  "int \<Rightarrow> string \<Rightarrow> object_id \<Rightarrow> date \<Rightarrow> inventory \<Rightarrow> error + inventory" where
  "inventory_reserveStock quantity reason usr now it =
     (if quantity > stockAvailable it then Inl InsufficientStock
      else
        Inr (pre_save now
          (it\<lparr>stock_reserved := stock_reserved it + quantity,
               movements := movements it @
                 [\<lparr>mv_type = Out, mv_quantity = quantity,
                   mv_reason = ''Reserved: '' @ reason, mv_user = usr,
                   mv_reference = None, mv_notes = None, mv_timestamp = now\<rparr>]\<rparr>)))"

text \<open>\<^verbatim>\<open>InventorySchema.methods.releaseReservedStock\<close>.\<close>

definition inventory_releaseReservedStock ::
  "int \<Rightarrow> string \<Rightarrow> object_id \<Rightarrow> date \<Rightarrow> inventory \<Rightarrow> inventory" where
  "inventory_releaseReservedStock quantity reason usr now it =
     (let releaseQuantity = min quantity (stock_reserved it)
      in pre_save now
          (it\<lparr>stock_reserved := stock_reserved it - releaseQuantity,
               movements := movements it @
                 [\<lparr>mv_type = In, mv_quantity = releaseQuantity,
                   mv_reason = ''Released: '' @ reason, mv_user = usr,
                   mv_reference = None, mv_notes = None, mv_timestamp = now\<rparr>]\<rparr>))"

text \<open>A ledger entry with the given fields, to state what a method appends.\<close>

definition ledger_entry ::
  "movement_type \<Rightarrow> int \<Rightarrow> string \<Rightarrow> object_id \<Rightarrow> string option \<Rightarrow> string option \<Rightarrow> date \<Rightarrow>
   movement" where
  "ledger_entry ty q reason u reference notes now =
     \<lparr>mv_type = ty, mv_quantity = q, mv_reason = reason, mv_user = u,
      mv_reference = reference, mv_notes = notes, mv_timestamp = now\<rparr>"

text \<open>
  The controllers of controllers/inventory.js. The first argument is \<open>req.user\<close>, the
  second the result of \<^verbatim>\<open>Inventory.findById\<close>. Every error is returned before the
  model method runs, so \<open>Inl\<close> means that nothing was saved; \<open>Inr\<close> carries the saved
  document. \<^verbatim>\<open>!quantity || quantity <= 0\<close> is \<open>quantity \<le> 0\<close> on integers.
\<close>

definition inventory_authorized :: "user \<Rightarrow> inventory \<Rightarrow> bool" where
  "inventory_authorized usr item = (user_role usr = Admin \<or> inv_owner item = user_id usr)"

definition addMovement ::
  "user \<Rightarrow> inventory option \<Rightarrow> movement_type \<Rightarrow> int \<Rightarrow> string \<Rightarrow> string option \<Rightarrow>
   string option \<Rightarrow> date \<Rightarrow> error + inventory" where
  "addMovement usr found ty quantity reason reference notes now =
     (case found of
        None \<Rightarrow> Inl NotFound
      | Some item \<Rightarrow>
          if \<not> inventory_authorized usr item then Inl Forbidden
          else if quantity \<le> 0 then Inl ValidationError
          else if (outbound ty \<or> (ty = Adjustment \<and> quantity < 0)) \<and>
                  \<bar>quantity\<bar> > stock_current item then Inl InsufficientStock
          else Inr (inventory_addMovement ty quantity reason (user_id usr) reference notes
                      now item))"

definition reserveStock ::
  "user \<Rightarrow> inventory option \<Rightarrow> int \<Rightarrow> string \<Rightarrow> date \<Rightarrow> error + inventory" where
  "reserveStock usr found quantity reason now =
     (case found of
        None \<Rightarrow> Inl NotFound
      | Some item \<Rightarrow>
          if \<not> inventory_authorized usr item then Inl Forbidden
          else if quantity \<le> 0 then Inl ValidationError
          else inventory_reserveStock quantity reason (user_id usr) now item)"

definition releaseReservedStock ::
  "user \<Rightarrow> inventory option \<Rightarrow> int \<Rightarrow> string \<Rightarrow> date \<Rightarrow> error + inventory" where
  "releaseReservedStock usr found quantity reason now =
     (case found of
        None \<Rightarrow> Inl NotFound
      | Some item \<Rightarrow>
          if \<not> inventory_authorized usr item then Inl Forbidden
          else if quantity \<le> 0 then Inl ValidationError
          else if quantity > stock_reserved item then Inl ValidationError
          else Inr (inventory_releaseReservedStock quantity reason (user_id usr) now item))"

text \<open>
  A sequence of ledger requests against one item. Each request names its caller and its
  time; a request that is answered with an error leaves the stored item as it was.
\<close>

datatype ledger_op =
    AddMovement movement_type int string "string option" "string option"
  | ReserveStock int string
  | ReleaseReservedStock int string

record ledger_request =
  rq_user :: user
  rq_now :: date
  rq_op :: ledger_op

fun ledger_response :: "inventory \<Rightarrow> ledger_request \<Rightarrow> error + inventory" where
  "ledger_response item rq =
     (case rq_op rq of
        AddMovement ty q reason reference notes \<Rightarrow>
          addMovement (rq_user rq) (Some item) ty q reason reference notes (rq_now rq)
      | ReserveStock q reason \<Rightarrow> reserveStock (rq_user rq) (Some item) q reason (rq_now rq)
      | ReleaseReservedStock q reason \<Rightarrow>
          releaseReservedStock (rq_user rq) (Some item) q reason (rq_now rq))"

definition ledger_step :: "inventory \<Rightarrow> ledger_request \<Rightarrow> inventory" where
  "ledger_step item rq = (case ledger_response item rq of Inl e \<Rightarrow> item | Inr item' \<Rightarrow> item')"

text \<open>The stored item after each request of the sequence, in order.\<close>

fun ledger_trace :: "inventory \<Rightarrow> ledger_request list \<Rightarrow> inventory list" where
  "ledger_trace item [] = []"
| "ledger_trace item (rq # rqs) = ledger_step item rq # ledger_trace (ledger_step item rq) rqs"

text \<open>
  The invariant as the specification words it, and the one the pre-save hook maintains
  (the hook clamps the difference at zero).
\<close>

definition spec_stock_invariant :: "inventory \<Rightarrow> bool" where
  "spec_stock_invariant it =
     (stock_available it = stock_current it - stock_reserved it \<and>
      0 \<le> stock_available it \<and> 0 \<le> stock_current it)"

definition stock_invariant :: "inventory \<Rightarrow> bool" where
  "stock_invariant it =
     (stock_available it = max 0 (stock_current it - stock_reserved it) \<and>
      0 \<le> stock_available it \<and> 0 \<le> stock_current it)"


section \<open>Orders and vehicles (models/Order.js, models/Vehicle.js, controllers/orders.js)\<close>

text \<open>
  The \<^verbatim>\<open>status\<close> enum of the Order schema. A request whose status is any other string is
  rejected by the schema when the order is saved; the type leaves such requests out.
\<close>

datatype order_status =
    Pending | Confirmed | Processing | Assigned | PickedUp | InTransit | OutForDelivery
  | Delivered | Cancelled | Returned | Failed

record location =
  loc_lat :: real
  loc_lng :: real
  loc_address :: string

text \<open>An entry of \<^verbatim>\<open>tracking.statusHistory\<close>.\<close>

record status_update =
  su_status :: order_status
  su_timestamp :: date
  su_updatedBy :: "object_id option"
  su_notes :: "string option"
  su_location :: "location option"
  su_automatic :: bool

datatype refund_status = RefundPending | RefundProcessed | RefundFailed

record cancellation =
  cancelledAt :: date
  cancelledBy :: object_id
  cancel_reason :: "string option"
  refundAmount :: int
  refundStatus :: "refund_status option"

text \<open>
  The fields of an Order document that the lifecycle operations read or write. The
  pre-save hook of the Order schema numbers new documents and fills in missing cargo
  totals; on a stored order with its totals present it changes nothing.
\<close>

record order =
  ord_customer :: object_id
  ord_assignedDriver :: "object_id option"
  ord_assignedVehicle :: "object_id option"
  ord_status :: order_status
  cargo_totalWeight :: int
  pricing_totalAmount :: int
  tracking_statusHistory :: "status_update list"
  tracking_actualDeliveryTime :: "date option"
  tracking_lastKnownLocation :: "(location \<times> date) option"
  ord_cancellation :: "cancellation option"

text \<open>
  The Vehicle document. Its status is kept as the string the code writes, because
  controllers/orders.js writes a string that the schema's enum does not list; the enum
  validator runs when the document is saved. Of the vehicle's metrics the three that
  \<^verbatim>\<open>completeRoute\<close> adds to are modelled; \<^verbatim>\<open>utilizationRate\<close>, which the pre-save hook
  derives from the trip count, is not.
\<close>

record vehicle =
  vh_status :: string
  vh_assignedDriver :: "object_id option"
  capacity_weight :: int
  metrics_totalTrips :: int
  metrics_totalDistance :: int
  metrics_totalFuelConsumed :: int

text \<open>models/Vehicle.js, the \<^verbatim>\<open>status\<close> enum.\<close>

definition vehicle_status_enum :: "string list" where
  "vehicle_status_enum =
     [''available'', ''in-transit'', ''maintenance'', ''out-of-service'', ''loading'',
      ''unloading'']"

text \<open>
  \<^verbatim>\<open>vehicle.save()\<close>: Mongoose validates the document against the schema and rejects a
  status outside the enum with a validation error; nothing is written then.
\<close>

definition vehicle_save :: "vehicle \<Rightarrow> error + vehicle" where
  "vehicle_save v =
     (if vh_status v \<in> set vehicle_status_enum then Inr v else Inl ValidationError)"

text \<open>\<^verbatim>\<open>OrderSchema.methods.updateStatus\<close>.\<close>

definition order_updateStatus ::
  "order_status \<Rightarrow> string option \<Rightarrow> location option \<Rightarrow> object_id \<Rightarrow> date \<Rightarrow> order \<Rightarrow> order"
  where
  "order_updateStatus status notes loc updatedBy now ord =
     (let o1 = ord\<lparr>ord_status := status\<rparr>;
          statusUpdate = \<lparr>su_status = status, su_timestamp = now,
                           su_updatedBy = Some updatedBy, su_notes = notes,
                           su_location = loc, su_automatic = False\<rparr>;
          o2 = (case loc of
                  None \<Rightarrow> o1
                | Some l \<Rightarrow> o1\<lparr>tracking_lastKnownLocation := Some (l, now)\<rparr>);
          o3 = o2\<lparr>tracking_statusHistory := tracking_statusHistory o2 @ [statusUpdate]\<rparr>
      in if status = Delivered then o3\<lparr>tracking_actualDeliveryTime := Some now\<rparr> else o3)"

text \<open>\<^verbatim>\<open>OrderSchema.methods.assignDriverAndVehicle\<close>.\<close>

definition order_assignDriverAndVehicle ::
  "object_id \<Rightarrow> object_id \<Rightarrow> date \<Rightarrow> order \<Rightarrow> order" where
  "order_assignDriverAndVehicle driverId vehicleId now ord =
     ord\<lparr>ord_assignedDriver := Some driverId,
         ord_assignedVehicle := Some vehicleId,
         ord_status := Assigned,
         tracking_statusHistory := tracking_statusHistory ord @
           [\<lparr>su_status = Assigned, su_timestamp = now, su_updatedBy = None,
             su_notes = None, su_location = None, su_automatic = True\<rparr>]\<rparr>"

text \<open>\<^verbatim>\<open>OrderSchema.methods.cancelOrder\<close>.\<close>

definition order_cancelOrder ::
  "string option \<Rightarrow> object_id \<Rightarrow> int \<Rightarrow> date \<Rightarrow> order \<Rightarrow> order" where
  "order_cancelOrder reason cancelledBy' refund now ord =
     ord\<lparr>ord_status := Cancelled,
         ord_cancellation := Some
           \<lparr>cancelledAt = now, cancelledBy = cancelledBy', cancel_reason = reason,
            refundAmount = refund,
            refundStatus = (if refund > 0 then Some RefundPending else None)\<rparr>,
         tracking_statusHistory := tracking_statusHistory ord @
           [\<lparr>su_status = Cancelled, su_timestamp = now, su_updatedBy = Some cancelledBy',
             su_notes = reason, su_location = None, su_automatic = False\<rparr>]\<rparr>"

text \<open>
  The waypoints of a route (models/Route.js): the fields the controllers read or write,
  the \<^verbatim>\<open>type\<close> and \<^verbatim>\<open>status\<close> enums.
\<close>

datatype waypoint_type = Pickup | Delivery | Waypoint | RestStop | FuelStop

datatype waypoint_status = WpPending | WpArrived | WpCompleted | WpSkipped

record waypoint =
  wp_lat :: real
  wp_lng :: real
  wp_address :: string
  wp_order :: int
  wp_type :: waypoint_type
  wp_status :: waypoint_status
  wp_actualArrival :: "date option"
  wp_actualDeparture :: "date option"

datatype route_status =
  RDraft | RPlanned | RAssigned | RInProgress | RCompleted | RCancelled | RPaused

record route =
  rt_createdBy :: object_id
  rt_assignedDriver :: "object_id option"
  rt_assignedVehicle :: "object_id option"
  rt_status :: route_status
  rt_waypoints :: "waypoint list"
  optimization_totalDistance :: real
  optimization_estimatedDuration :: real
  optimization_estimatedFuelCost :: real
  plannedStartTime :: date
  plannedEndTime :: date
  actualStartTime :: "date option"
  actualEndTime :: "date option"
  metrics_actualDistance :: "int option"
  metrics_actualDuration :: "int option"
  metrics_fuelConsumed :: "int option"
  metrics_delayTime :: "int option"
  completion_completedAt :: "date option"
  completion_completionNotes :: "string option"
  completion_issues :: "string list"

text \<open>
  The stored collections: \<^verbatim>\<open>findById\<close> is a lookup, a successful \<^verbatim>\<open>save()\<close> an
  update. A controller returns its answer together with the store it leaves behind.
\<close>

record db =
  db_orders :: "object_id \<rightharpoonup> order"
  db_vehicles :: "object_id \<rightharpoonup> vehicle"
  db_users :: "object_id \<rightharpoonup> user"
  db_routes :: "object_id \<rightharpoonup> route"

text \<open>The authorization checks \<^verbatim>\<open>canUpdate\<close> and \<^verbatim>\<open>canCancel\<close> of controllers/orders.js.\<close>

definition canUpdate :: "user \<Rightarrow> order \<Rightarrow> bool" where
  "canUpdate usr ord =
     (user_role usr = Admin \<or> ord_assignedDriver ord = Some (user_id usr) \<or>
      user_role usr = FleetManager)"

definition canCancel :: "user \<Rightarrow> order \<Rightarrow> bool" where
  "canCancel usr ord =
     (user_role usr = Admin \<or> ord_customer ord = user_id usr \<or> user_role usr = FleetManager)"

text \<open>controllers/orders.js, \<^verbatim>\<open>updateOrderStatus\<close>.\<close>

definition updateOrderStatus ::
  "user \<Rightarrow> object_id \<Rightarrow> order_status \<Rightarrow> string option \<Rightarrow> location option \<Rightarrow> date \<Rightarrow> db \<Rightarrow>
   (error + order) \<times> db" where
  "updateOrderStatus usr oid status notes loc now d =
     (case db_orders d oid of
        None \<Rightarrow> (Inl NotFound, d)
      | Some ord \<Rightarrow>
          if \<not> canUpdate usr ord then (Inl Forbidden, d)
          else
            (let ord' = order_updateStatus status notes loc (user_id usr) now ord
             in (Inr ord', d\<lparr>db_orders := (db_orders d)(oid \<mapsto> ord')\<rparr>)))"

text \<open>
  controllers/orders.js, \<^verbatim>\<open>assignOrder\<close>. The order is saved first; the vehicle is saved
  second, and an exception of that save reaches the \<^verbatim>\<open>catch\<close> after the order has been
  written.
\<close>

definition assignOrder ::
  "object_id \<Rightarrow> object_id \<Rightarrow> object_id \<Rightarrow> date \<Rightarrow> db \<Rightarrow> (error + order) \<times> db" where
  "assignOrder oid driverId vehicleId now d =
     (case db_orders d oid of
        None \<Rightarrow> (Inl NotFound, d)
      | Some ord \<Rightarrow>
          (case db_users d driverId of
             None \<Rightarrow> (Inl ValidationError, d)
           | Some driver \<Rightarrow>
               if user_role driver \<noteq> Driver then (Inl ValidationError, d)
               else
                 (case db_vehicles d vehicleId of
                    None \<Rightarrow> (Inl VehicleUnavailable, d)
                  | Some vh \<Rightarrow>
                      if vh_status vh \<noteq> ''available'' then (Inl VehicleUnavailable, d)
                      else if cargo_totalWeight ord > capacity_weight vh
                      then (Inl CapacityExceeded, d)
                      else
                        (let ord' = order_assignDriverAndVehicle driverId vehicleId now ord;
                             d1 = d\<lparr>db_orders := (db_orders d)(oid \<mapsto> ord')\<rparr>
                         in case vehicle_save
                                   (vh\<lparr>vh_status := ''assigned'',
                                       vh_assignedDriver := Some driverId\<rparr>) of
                              Inl e \<Rightarrow> (Inl e, d1)
                            | Inr vh' \<Rightarrow>
                                (Inr ord',
                                 d1\<lparr>db_vehicles := (db_vehicles d1)(vehicleId \<mapsto> vh')\<rparr>)))))"

text \<open>controllers/orders.js, \<^verbatim>\<open>cancelOrder\<close>.\<close>

definition cancelOrder ::
  "user \<Rightarrow> object_id \<Rightarrow> string option \<Rightarrow> date \<Rightarrow> db \<Rightarrow> (error + order) \<times> db" where
  "cancelOrder usr oid reason now d =
     (case db_orders d oid of
        None \<Rightarrow> (Inl NotFound, d)
      | Some ord \<Rightarrow>
          if \<not> canCancel usr ord then (Inl Forbidden, d)
          else if ord_status ord = Delivered \<or> ord_status ord = Cancelled
          then (Inl InvalidTransition, d)
          else
            (let refund = (if ord_status ord = Pending then pricing_totalAmount ord else 0);
                 ord' = order_cancelOrder reason (user_id usr) refund now ord;
                 d1 = d\<lparr>db_orders := (db_orders d)(oid \<mapsto> ord')\<rparr>
             in case ord_assignedVehicle ord' of
                  None \<Rightarrow> (Inr ord', d1)
                | Some vid \<Rightarrow>
                    (case db_vehicles d1 vid of
                       None \<Rightarrow> (Inr ord', d1)
                     | Some vh \<Rightarrow>
                         (case vehicle_save
                                 (vh\<lparr>vh_status := ''available'', vh_assignedDriver := None\<rparr>) of
                            Inl e \<Rightarrow> (Inl e, d1)
                          | Inr vh' \<Rightarrow>
                              (Inr ord',
                               d1\<lparr>db_vehicles := (db_vehicles d1)(vid \<mapsto> vh')\<rparr>)))))"


section \<open>Routes (models/Route.js, controllers/routes.js)\<close>

text \<open>\<^verbatim>\<open>RouteSchema.methods.completeRoute\<close>; \<^verbatim>\<open>Math.floor(ms / (1000 * 60))\<close> is \<open>div\<close>.\<close>

definition route_completeRoute :: "string option \<Rightarrow> string list \<Rightarrow> date \<Rightarrow> route \<Rightarrow> route" where
  "route_completeRoute notes issues now r =
     (let r1 = r\<lparr>rt_status := RCompleted,
                  actualEndTime := Some now,
                  completion_completedAt := Some now,
                  completion_completionNotes := notes,
                  completion_issues := issues\<rparr>
      in case actualStartTime r1 of
           None \<Rightarrow> r1
         | Some start \<Rightarrow>
             (let actualDuration = (now - start) div (1000 * 60);
                  plannedDuration = (plannedEndTime r1 - plannedStartTime r1) div (1000 * 60)
              in r1\<lparr>metrics_actualDuration := Some actualDuration,
                     metrics_delayTime := Some (max 0 (actualDuration - plannedDuration))\<rparr>))"

text \<open>
  controllers/routes.js, \<^verbatim>\<open>completeRoute\<close>; \<^verbatim>\<open>issues || []\<close> is the list the caller
  passes, empty when the request has none.
\<close>

definition completeRoute ::
  "user \<Rightarrow> object_id \<Rightarrow> string option \<Rightarrow> string list \<Rightarrow> date \<Rightarrow> db \<Rightarrow> (error + route) \<times> db"
  where
  "completeRoute usr rid notes issues now d =
     (case db_routes d rid of
        None \<Rightarrow> (Inl NotFound, d)
      | Some r \<Rightarrow>
          if rt_assignedDriver r \<noteq> Some (user_id usr) \<and> user_role usr \<noteq> Admin
          then (Inl Forbidden, d)
          else if rt_status r \<noteq> RInProgress then (Inl InvalidTransition, d)
          else
            (let r' = route_completeRoute notes issues now r;
                 d1 = d\<lparr>db_routes := (db_routes d)(rid \<mapsto> r')\<rparr>
             in case rt_assignedVehicle r' of
                  None \<Rightarrow> (Inr r', d1)
                | Some vid \<Rightarrow>
                    (case db_vehicles d1 vid of
                       None \<Rightarrow> (Inr r', d1)
                     | Some vh \<Rightarrow>
                         (let v1 = vh\<lparr>vh_status := ''available'',
                                       metrics_totalTrips := metrics_totalTrips vh + 1\<rparr>;
                              v2 = (case metrics_actualDistance r' of
                                      None \<Rightarrow> v1
                                    | Some k \<Rightarrow>
                                        if k = 0 then v1
                                        else v1\<lparr>metrics_totalDistance :=
                                                  metrics_totalDistance v1 + k\<rparr>);
                              v3 = (case metrics_fuelConsumed r' of
                                      None \<Rightarrow> v2
                                    | Some k \<Rightarrow>
                                        if k = 0 then v2
                                        else v2\<lparr>metrics_totalFuelConsumed :=
                                                  metrics_totalFuelConsumed v2 + k\<rparr>)
                          in case vehicle_save v3 of
                               Inl e \<Rightarrow> (Inl e, d1)
                             | Inr vh' \<Rightarrow>
                                 (Inr r',
                                  d1\<lparr>db_vehicles := (db_vehicles d1)(vid \<mapsto> vh')\<rparr>)))))"

text \<open>
  A waypoint as the JavaScript of controllers/routes.js holds it. The waypoints of a route
  loaded with \<^verbatim>\<open>Route.findById\<close> are Mongoose subdocuments: their schema fields
  (\<^verbatim>\<open>type\<close>, \<^verbatim>\<open>location\<close>, \<^verbatim>\<open>order\<close>, ...) are read through accessors of the
  prototype, and the values themselves are held in the own property \<^verbatim>\<open>_doc\<close>. A spread
  \<^verbatim>\<open>{...waypoint, order: k}\<close> copies own enumerable properties only: from a subdocument
  it makes a plain object with \<^verbatim>\<open>_doc\<close> (and Mongoose's other internals) and with
  \<^verbatim>\<open>order\<close>, on which \<^verbatim>\<open>type\<close> and \<^verbatim>\<open>location\<close> are \<^verbatim>\<open>undefined\<close>; from such a
  plain object it makes the same object with the new \<^verbatim>\<open>order\<close>.
\<close>

datatype wp_object =
    Subdocument waypoint
  | SpreadObject waypoint int

text \<open>
  The property reads \<^verbatim>\<open>w.type\<close>, \<^verbatim>\<open>w.location\<close> (its coordinates) and \<^verbatim>\<open>w.order\<close>, with
  \<open>None\<close> for \<^verbatim>\<open>undefined\<close>; the stored values under \<^verbatim>\<open>_doc\<close>; and the spread.
\<close>

fun obj_type :: "wp_object \<Rightarrow> waypoint_type option" where
  "obj_type (Subdocument w) = Some (wp_type w)"
| "obj_type (SpreadObject doc k) = None"

fun obj_location :: "wp_object \<Rightarrow> (real \<times> real) option" where
  "obj_location (Subdocument w) = Some (wp_lat w, wp_lng w)"
| "obj_location (SpreadObject doc k) = None"

fun obj_order :: "wp_object \<Rightarrow> int" where
  "obj_order (Subdocument w) = wp_order w"
| "obj_order (SpreadObject doc k) = k"

fun obj_doc :: "wp_object \<Rightarrow> waypoint" where
  "obj_doc (Subdocument w) = w"
| "obj_doc (SpreadObject doc k) = doc"

fun spread_order :: "wp_object \<Rightarrow> int \<Rightarrow> wp_object" where
  "spread_order (Subdocument w) k = SpreadObject w k"
| "spread_order (SpreadObject doc j) k = SpreadObject doc k"

text \<open>
  \<^verbatim>\<open>optimizeWaypoints\<close>: three filters, their concatenation, and
  \<^verbatim>\<open>map((waypoint, index) => ({...waypoint, order: index + 1}))\<close>, here \<open>reindex 0\<close>.
  \<^verbatim>\<open>!['pickup', 'delivery'].includes(w.type)\<close> holds of an undefined type.
\<close>

fun reindex :: "nat \<Rightarrow> wp_object list \<Rightarrow> wp_object list" where
  "reindex index [] = []"
| "reindex index (w # ws) = spread_order w (int index + 1) # reindex (Suc index) ws"

definition optimizeWaypoints :: "wp_object list \<Rightarrow> wp_object list" where
  "optimizeWaypoints waypoints =
     (let pickupPoints = filter (\<lambda>w. obj_type w = Some Pickup) waypoints;
          deliveryPoints = filter (\<lambda>w. obj_type w = Some Delivery) waypoints;
          otherPoints =
            filter (\<lambda>w. \<not> (obj_type w = Some Pickup \<or> obj_type w = Some Delivery)) waypoints;
          optimized = pickupPoints @ deliveryPoints @ otherPoints
      in reindex 0 optimized)"

text \<open>
  The three groups of a list of stored waypoints, in the order pickups, deliveries,
  others, to state what \<open>optimizeWaypoints\<close> returns.
\<close>

definition grouped :: "waypoint list \<Rightarrow> waypoint list" where
  "grouped ws =
     filter (\<lambda>w. wp_type w = Pickup) ws @ filter (\<lambda>w. wp_type w = Delivery) ws @
     filter (\<lambda>w. \<not> (wp_type w = Pickup \<or> wp_type w = Delivery)) ws"

text \<open>
  \<^verbatim>\<open>calculateRouteMetrics\<close>. \<^verbatim>\<open>calculateDistance\<close> is floating-point trigonometry
  (haversine); the model takes a function of the four coordinates in its place, and the
  sums and quotients of the metrics over the reals. The loop adds the distances of
  consecutive waypoints from left to right; reading \<^verbatim>\<open>current.location.coordinates\<close>
  or \<^verbatim>\<open>next.location.coordinates\<close> of a waypoint whose location is undefined throws.
\<close>

type_synonym distance_fn = "real \<Rightarrow> real \<Rightarrow> real \<Rightarrow> real \<Rightarrow> real"

fun sum_legs :: "distance_fn \<Rightarrow> real \<Rightarrow> wp_object list \<Rightarrow> error + real" where
  "sum_legs calculateDistance totalDistance (current # next # ws) =
     (case obj_location current of
        None \<Rightarrow> Inl TypeError
      | Some (lat1, lon1) \<Rightarrow>
          (case obj_location next of
             None \<Rightarrow> Inl TypeError
           | Some (lat2, lon2) \<Rightarrow>
               sum_legs calculateDistance
                 (totalDistance + calculateDistance lat1 lon1 lat2 lon2) (next # ws)))"
| "sum_legs calculateDistance totalDistance ws = Inr totalDistance"

record route_metrics =
  totalDistance :: real
  estimatedDuration :: real
  estimatedFuelCost :: real

definition calculateRouteMetrics :: "distance_fn \<Rightarrow> wp_object list \<Rightarrow> error + route_metrics"
  where
  "calculateRouteMetrics calculateDistance waypoints =
     (case sum_legs calculateDistance 0 waypoints of
        Inl e \<Rightarrow> Inl e
      | Inr distance \<Rightarrow>
          Inr \<lparr>totalDistance = distance,
               estimatedDuration = (distance / 50) * 60,
               estimatedFuelCost = (distance / 10) * 1.2\<rparr>)"

text \<open>
  controllers/routes.js, \<^verbatim>\<open>optimizeRoute\<close>, on the route \<^verbatim>\<open>findById\<close> returned. The
  helpers run on the route's subdocuments; an exception of theirs reaches the \<^verbatim>\<open>catch\<close>
  before anything is assigned or saved. What Mongoose stores when the plain objects are
  assigned to \<^verbatim>\<open>route.waypoints\<close> and the route is saved (the subdocuments it casts them
  to, or a validation error) is behaviour of the library, not of this repository, and is
  the parameter \<open>castWaypoints\<close>.
\<close>

type_synonym waypoint_cast = "wp_object list \<Rightarrow> error + waypoint list"

definition canOptimize :: "user \<Rightarrow> route \<Rightarrow> bool" where
  "canOptimize usr r =
     (user_role usr = Admin \<or> rt_createdBy r = user_id usr \<or> user_role usr = FleetManager)"

definition optimizeRoute ::
  "distance_fn \<Rightarrow> waypoint_cast \<Rightarrow> user \<Rightarrow> route option \<Rightarrow> error + route" where
  "optimizeRoute calculateDistance castWaypoints usr found =
     (case found of
        None \<Rightarrow> Inl NotFound
      | Some r \<Rightarrow>
          if \<not> canOptimize usr r then Inl Forbidden
          else
            (let optimizedWaypoints = optimizeWaypoints (map Subdocument (rt_waypoints r))
             in case calculateRouteMetrics calculateDistance optimizedWaypoints of
                  Inl e \<Rightarrow> Inl e
                | Inr m \<Rightarrow>
                    (case castWaypoints optimizedWaypoints of
                       Inl e \<Rightarrow> Inl e
                     | Inr ws \<Rightarrow>
                         Inr (r\<lparr>rt_waypoints := ws,
                                optimization_totalDistance := totalDistance m,
                                optimization_estimatedDuration := estimatedDuration m,
                                optimization_estimatedFuelCost := estimatedFuelCost m\<rparr>))))"


section \<open>Sample documents\<close>

text \<open>Concrete documents and callers used to run the definitions.\<close>

definition admin_user :: user where
  "admin_user = \<lparr>user_id = 1, user_role = Admin\<rparr>"

definition sample_item :: inventory where
  "sample_item =
     \<lparr>inv_owner = 7, stock_current = 10, stock_reserved = 0, stock_available = 10,
      stock_reorderPoint = 2, inv_status = Active, movements = [],
      analytics_totalIn = 10, analytics_totalOut = 0, analytics_lastSoldDate = None,
      audit_lastModifiedAt = None, audit_version = 1\<rparr>"

text \<open>The same item with five units reserved.\<close>

definition reserved_item :: inventory where
  "reserved_item = sample_item\<lparr>stock_reserved := 5, stock_available := 5\<rparr>"

text \<open>
  Two requests by an administrator: reserve eight of the ten units, then ship five
  units out.
\<close>

definition overdraw_requests :: "ledger_request list" where
  "overdraw_requests =
     [\<lparr>rq_user = admin_user, rq_now = 1000, rq_op = ReserveStock 8 ''order 17''\<rparr>,
      \<lparr>rq_user = admin_user, rq_now = 2000, rq_op = AddMovement Out 5 ''sale'' None None\<rparr>]"

text \<open>Users, orders and vehicles of a small store.\<close>

definition driver_user :: user where
  "driver_user = \<lparr>user_id = 2, user_role = Driver\<rparr>"

definition customer_user :: user where
  "customer_user = \<lparr>user_id = 9, user_role = Retailer\<rparr>"

definition sample_order :: order where
  "sample_order =
     \<lparr>ord_customer = 9, ord_assignedDriver = None, ord_assignedVehicle = None,
      ord_status = Pending, cargo_totalWeight = 1200, pricing_totalAmount = 115,
      tracking_statusHistory = [], tracking_actualDeliveryTime = None,
      tracking_lastKnownLocation = None, ord_cancellation = None\<rparr>"

definition delivered_order :: order where
  "delivered_order =
     sample_order\<lparr>ord_status := Delivered, cargo_totalWeight := 800,
       tracking_actualDeliveryTime := Some 900\<rparr>"

definition bound_order :: order where
  "bound_order =
     sample_order\<lparr>cargo_totalWeight := 800, ord_assignedDriver := Some 2,
       ord_assignedVehicle := Some 6\<rparr>"

definition sample_vehicle :: vehicle where
  "sample_vehicle =
     \<lparr>vh_status = ''available'', vh_assignedDriver = None, capacity_weight = 1000,
      metrics_totalTrips = 0, metrics_totalDistance = 0, metrics_totalFuelConsumed = 0\<rparr>"

definition busy_vehicle :: vehicle where
  "busy_vehicle = sample_vehicle\<lparr>vh_status := ''in-transit'', vh_assignedDriver := Some 2\<rparr>"

text \<open>
  A route planned from 10:00 to 12:00 and started at 10:00 (times in milliseconds after
  midnight), and the same route put in progress without a recorded start.
\<close>

definition sample_waypoints :: "waypoint list" where
  "sample_waypoints =
     [\<lparr>wp_lat = 1, wp_lng = 1, wp_address = ''shop'', wp_order = 1, wp_type = Delivery,
       wp_status = WpPending, wp_actualArrival = None, wp_actualDeparture = None\<rparr>,
      \<lparr>wp_lat = 2, wp_lng = 5, wp_address = ''farm'', wp_order = 2, wp_type = Pickup,
       wp_status = WpPending, wp_actualArrival = None, wp_actualDeparture = None\<rparr>,
      \<lparr>wp_lat = 3, wp_lng = 3, wp_address = ''station'', wp_order = 3, wp_type = FuelStop,
       wp_status = WpPending, wp_actualArrival = None, wp_actualDeparture = None\<rparr>,
      \<lparr>wp_lat = 0, wp_lng = 4, wp_address = ''depot'', wp_order = 4, wp_type = Pickup,
       wp_status = WpPending, wp_actualArrival = None, wp_actualDeparture = None\<rparr>]"

definition sample_route :: route where
  "sample_route =
     \<lparr>rt_createdBy = 1, rt_assignedDriver = Some 2, rt_assignedVehicle = Some 6,
      rt_status = RInProgress, rt_waypoints = sample_waypoints,
      optimization_totalDistance = 0, optimization_estimatedDuration = 0,
      optimization_estimatedFuelCost = 0,
      plannedStartTime = 36000000, plannedEndTime = 43200000,
      actualStartTime = Some 36000000, actualEndTime = None,
      metrics_actualDistance = None, metrics_actualDuration = None,
      metrics_fuelConsumed = None, metrics_delayTime = None,
      completion_completedAt = None, completion_completionNotes = None,
      completion_issues = []\<rparr>"

definition unstarted_route :: route where
  "unstarted_route = sample_route\<lparr>actualStartTime := None\<rparr>"

definition sample_db :: db where
  "sample_db =
     \<lparr>db_orders = [1 \<mapsto> sample_order, 4 \<mapsto> delivered_order, 5 \<mapsto> bound_order],
      db_vehicles = [3 \<mapsto> sample_vehicle, 6 \<mapsto> busy_vehicle],
      db_users = [1 \<mapsto> admin_user, 2 \<mapsto> driver_user, 9 \<mapsto> customer_user],
      db_routes = [10 \<mapsto> sample_route, 11 \<mapsto> unstarted_route]\<rparr>"

text \<open>A stand-in for the distance of two coordinates, to run the route metrics.\<close>

definition grid_distance :: distance_fn where
  "grid_distance lat1 lon1 lat2 lon2 = \<bar>lat2 - lat1\<bar> + \<bar>lon2 - lon1\<bar>"

text \<open>
  A stand-in for the cast of assigned waypoints: the stored values with the new order.
\<close>

definition doc_cast :: waypoint_cast where
  "doc_cast os = Inr (map (\<lambda>w. (obj_doc w)\<lparr>wp_order := obj_order w\<rparr>) os)"


section \<open>The inventory ledger: what the operations do to the stock\<close>

lemma pre_save_fields [simp]:
  "stock_current (pre_save now it) = stock_current it"
  "stock_reserved (pre_save now it) = stock_reserved it"
  "movements (pre_save now it) = movements it"
  "analytics_totalIn (pre_save now it) = analytics_totalIn it"
  "analytics_totalOut (pre_save now it) = analytics_totalOut it"
  "inv_owner (pre_save now it) = inv_owner it"
  by (simp_all add: pre_save_def Let_def)

lemma pre_save_stock_invariant:
  "0 \<le> stock_current it \<Longrightarrow> stock_invariant (pre_save now it)"
  by (simp add: stock_invariant_def pre_save_def Let_def)

lemma inventory_addMovement_invariant:
  "0 \<le> stock_current it \<Longrightarrow>
   stock_invariant (inventory_addMovement ty q reason u reference notes now it)"
  unfolding inventory_addMovement_def Let_def
  by (rule pre_save_stock_invariant) simp

lemma inventory_reserveStock_invariant:
  "0 \<le> stock_current it \<Longrightarrow> inventory_reserveStock q reason u now it = Inr it' \<Longrightarrow>
   stock_invariant it'"
  unfolding inventory_reserveStock_def
  by (auto split: if_splits intro!: pre_save_stock_invariant)

lemma inventory_releaseReservedStock_invariant:
  "0 \<le> stock_current it \<Longrightarrow>
   stock_invariant (inventory_releaseReservedStock q reason u now it)"
  unfolding inventory_releaseReservedStock_def Let_def
  by (rule pre_save_stock_invariant) simp

lemma ledger_response_invariant:
  assumes "0 \<le> stock_current it" and "ledger_response it rq = Inr it'"
  shows "stock_invariant it'"
proof (cases "rq_op rq")
  case (AddMovement ty q reason reference nts)
  with assms show ?thesis
    by (auto simp: addMovement_def split: if_splits
        intro!: inventory_addMovement_invariant)
next
  case (ReserveStock q reason)
  with assms show ?thesis
    by (auto simp: reserveStock_def split: if_splits
        dest: inventory_reserveStock_invariant)
next
  case (ReleaseReservedStock q reason)
  with assms show ?thesis
    by (auto simp: releaseReservedStock_def split: if_splits
        intro!: inventory_releaseReservedStock_invariant)
qed

lemma ledger_step_invariant:
  assumes "stock_invariant it"
  shows "stock_invariant (ledger_step it rq)"
proof (cases "ledger_response it rq")
  case (Inl e)
  with assms show ?thesis by (simp add: ledger_step_def)
next
  case (Inr it')
  from assms have "0 \<le> stock_current it" by (simp add: stock_invariant_def)
  from ledger_response_invariant [OF this Inr] Inr show ?thesis
    by (simp add: ledger_step_def)
qed

text \<open>
  C2, as the code has it. For every inventory item that satisfies the invariant and every
  sequence of ledger requests (addMovement, reserveStock, releaseReservedStock, by any
  caller, with any arguments), the stored item satisfies after each request:
  \<open>stock.available = max(0, stock.current - stock.reserved)\<close>, \<open>stock.available \<ge> 0\<close> and
  \<open>stock.current \<ge> 0\<close>. The difference is clamped at zero: it is \<open>current - reserved\<close>
  itself exactly when \<open>reserved \<le> current\<close>.
\<close>

theorem ledger_trace_stock_invariant:
  "stock_invariant item \<Longrightarrow> list_all stock_invariant (ledger_trace item rqs)"
proof (induction rqs arbitrary: item)
  case Nil
  show ?case by simp
next
  case (Cons rq rqs)
  have "stock_invariant (ledger_step item rq)"
    using Cons.prems by (rule ledger_step_invariant)
  with Cons.IH show ?case by simp
qed

text \<open>
  The invariant on the sample item and the two requests: eight of ten units are reserved,
  then five are shipped, and the available quantity goes from 2 to 0.
\<close>

theorem ledger_trace_stock_invariant_witness:
  "stock_invariant sample_item \<and>
   list_all stock_invariant (ledger_trace sample_item overdraw_requests) \<and>
   map stock_available (ledger_trace sample_item overdraw_requests) = [2, 0]"
proof -
  have h: "stock_invariant sample_item"
    by (simp add: stock_invariant_def sample_item_def)
  have "map stock_available (ledger_trace sample_item overdraw_requests) = [2, 0]"
    by (simp add: overdraw_requests_def sample_item_def admin_user_def ledger_step_def
        reserveStock_def addMovement_def inventory_authorized_def inventory_reserveStock_def
        inventory_addMovement_def stockAvailable_def pre_save_def outbound_def Let_def)
  with h ledger_trace_stock_invariant [OF h, of overdraw_requests] show ?thesis by simp
qed

text \<open>
  The invariant as the specification words it fails after the second of the two requests:
  the item holds 10 units; 8 are reserved; shipping 5 passes the controller's check
  (5 \<open>\<le>\<close> current) and leaves current = 5, reserved = 8, available = 0, where
  \<open>current - reserved = -3\<close>.
\<close>

theorem stock_invariant_counterexample:
  "spec_stock_invariant sample_item \<and>
   \<not> list_all spec_stock_invariant (ledger_trace sample_item overdraw_requests)"
  by (simp add: spec_stock_invariant_def overdraw_requests_def sample_item_def admin_user_def
      ledger_step_def reserveStock_def addMovement_def inventory_authorized_def
      inventory_reserveStock_def inventory_addMovement_def stockAvailable_def pre_save_def
      outbound_def Let_def)

text \<open>
  C3, as the code has it. For every inventory item, every authorized caller and every
  addMovement request with quantity > 0:
  \<^item> type \<open>in\<close> or \<open>adjustment\<close> (a positive adjustment): the request succeeds,
    stock.current and analytics.totalIn grow by the quantity;
  \<^item> type \<open>out\<close>, \<open>damaged\<close>, \<open>expired\<close> or \<open>lost\<close>: the request fails with
    InsufficientStock (nothing saved) when the quantity exceeds stock.current, and
    otherwise stock.current decreases by exactly the quantity and analytics.totalOut grows
    by it;
  \<^item> type \<open>transfer\<close>: the request succeeds and changes neither stock.current nor the
    running totals;
  \<^item> every successful request appends exactly one ledger entry with the type, quantity,
    reason, caller, reference, notes and time of the request.
\<close>

theorem addMovement_effect:
  assumes "0 < q" and "inventory_authorized usr item"
  shows
    "(ty = In \<or> ty = Adjustment \<longrightarrow>
        (\<exists>item'. addMovement usr (Some item) ty q reason reference notes now = Inr item' \<and>
           stock_current item' = stock_current item + q \<and>
           analytics_totalIn item' = analytics_totalIn item + q \<and>
           analytics_totalOut item' = analytics_totalOut item \<and>
           movements item' = movements item @
             [ledger_entry ty q reason (user_id usr) reference notes now])) \<and>
     (outbound ty \<and> stock_current item < q \<longrightarrow>
        addMovement usr (Some item) ty q reason reference notes now = Inl InsufficientStock) \<and>
     (outbound ty \<and> q \<le> stock_current item \<longrightarrow>
        (\<exists>item'. addMovement usr (Some item) ty q reason reference notes now = Inr item' \<and>
           stock_current item' = stock_current item - q \<and>
           analytics_totalOut item' = analytics_totalOut item + q \<and>
           analytics_totalIn item' = analytics_totalIn item \<and>
           movements item' = movements item @
             [ledger_entry ty q reason (user_id usr) reference notes now])) \<and>
     (ty = Transfer \<longrightarrow>
        (\<exists>item'. addMovement usr (Some item) ty q reason reference notes now = Inr item' \<and>
           stock_current item' = stock_current item \<and>
           analytics_totalIn item' = analytics_totalIn item \<and>
           analytics_totalOut item' = analytics_totalOut item \<and>
           movements item' = movements item @
             [ledger_entry ty q reason (user_id usr) reference notes now]))"
  using assms
  by (auto simp: addMovement_def inventory_addMovement_def ledger_entry_def Let_def
      outbound_def)

text \<open>
  On the sample item (10 units): receiving 4 gives 14, shipping 11 is refused, shipping 4
  gives 6.
\<close>

theorem addMovement_effect_witness:
  "addMovement admin_user (Some sample_item) In 4 ''restock'' None None 3000 =
     Inr (inventory_addMovement In 4 ''restock'' 1 None None 3000 sample_item) \<and>
   stock_current (inventory_addMovement In 4 ''restock'' 1 None None 3000 sample_item) = 14 \<and>
   addMovement admin_user (Some sample_item) Out 11 ''sale'' None None 3000 =
     Inl InsufficientStock \<and>
   addMovement admin_user (Some sample_item) Out 4 ''sale'' None None 3000 =
     Inr (inventory_addMovement Out 4 ''sale'' 1 None None 3000 sample_item) \<and>
   stock_current (inventory_addMovement Out 4 ''sale'' 1 None None 3000 sample_item) = 6"
proof -
  have q: "(0::int) < 4" "(0::int) < 11" by simp_all
  have a: "inventory_authorized admin_user sample_item"
    by (simp add: inventory_authorized_def admin_user_def)
  have o: "outbound Out" by (simp add: outbound_def)
  note e1 = addMovement_effect [OF q(1) a, of In "''restock''" None None 3000]
  note e2 = addMovement_effect [OF q(2) a, of Out "''sale''" None None 3000]
  note e3 = addMovement_effect [OF q(1) a, of Out "''sale''" None None 3000]
  have c: "stock_current sample_item = 10" by (simp add: sample_item_def)
  have u: "user_id admin_user = 1" by (simp add: admin_user_def)
  from e1 c have
    "\<exists>item'. addMovement admin_user (Some sample_item) In 4 ''restock'' None None 3000 =
        Inr item' \<and> stock_current item' = 14"
    by auto
  moreover from e2 o c have
    "addMovement admin_user (Some sample_item) Out 11 ''sale'' None None 3000 =
       Inl InsufficientStock"
    by simp
  moreover from e3 o c have
    "\<exists>item'. addMovement admin_user (Some sample_item) Out 4 ''sale'' None None 3000 =
        Inr item' \<and> stock_current item' = 6"
    by auto
  ultimately show ?thesis
    using a by (auto simp: addMovement_def u)
qed

text \<open>
  A successful addMovement that updates no running total: a transfer of 5 units on the
  sample item is saved with one more ledger entry, and totalIn (10) and totalOut (0) are
  what they were.
\<close>

theorem addMovement_transfer_counterexample:
  "addMovement admin_user (Some sample_item) Transfer 5 ''relocation'' None None 3000 =
     Inr \<lparr>inv_owner = 7, stock_current = 10, stock_reserved = 0, stock_available = 10,
          stock_reorderPoint = 2, inv_status = Active,
          movements = [ledger_entry Transfer 5 ''relocation'' 1 None None 3000],
          analytics_totalIn = 10, analytics_totalOut = 0, analytics_lastSoldDate = None,
          audit_lastModifiedAt = Some 3000, audit_version = 2\<rparr> \<and>
   analytics_totalIn sample_item = 10 \<and> analytics_totalOut sample_item = 0"
  by (simp add: addMovement_def inventory_addMovement_def inventory_authorized_def
      admin_user_def sample_item_def ledger_entry_def outbound_def pre_save_def Let_def)

text \<open>
  C4, as the code has it. The model method releaseReservedStock never fails: it decrements
  stock.reserved by \<open>min(quantity, stock.reserved)\<close>, leaves stock.current alone and
  appends one \<open>in\<close> entry of the released quantity; called with a quantity > 0 on an item
  whose reserved quantity is zero it leaves it at zero. The releaseReservedStock
  controller, for an authorized caller and a quantity > 0, refuses a quantity above
  stock.reserved with an error and saves nothing; otherwise it runs the method, which
  then decrements stock.reserved by exactly the quantity.
\<close>

theorem releaseReservedStock_effect:
  "stock_reserved (inventory_releaseReservedStock q reason u now item) =
     stock_reserved item - min q (stock_reserved item) \<and>
   stock_current (inventory_releaseReservedStock q reason u now item) = stock_current item \<and>
   movements (inventory_releaseReservedStock q reason u now item) =
     movements item @
       [ledger_entry In (min q (stock_reserved item)) (''Released: '' @ reason) u None None now] \<and>
   (0 < q \<and> stock_reserved item = 0 \<longrightarrow>
      stock_reserved (inventory_releaseReservedStock q reason u now item) = 0) \<and>
   (0 < q \<and> inventory_authorized usr item \<and> stock_reserved item < q \<longrightarrow>
      releaseReservedStock usr (Some item) q reason now = Inl ValidationError) \<and>
   (0 < q \<and> inventory_authorized usr item \<and> q \<le> stock_reserved item \<longrightarrow>
      releaseReservedStock usr (Some item) q reason now =
        Inr (inventory_releaseReservedStock q reason (user_id usr) now item) \<and>
      stock_reserved (inventory_releaseReservedStock q reason (user_id usr) now item) =
        stock_reserved item - q)"
  by (auto simp: releaseReservedStock_def inventory_releaseReservedStock_def ledger_entry_def
      Let_def)

text \<open>
  On the item with 5 units reserved: the method releases 8 as 5 and a second time as 0;
  the controller refuses 8 and releases 5.
\<close>

theorem releaseReservedStock_effect_witness:
  "stock_reserved (inventory_releaseReservedStock 8 ''r'' 1 4000 reserved_item) = 0 \<and>
   stock_reserved
     (inventory_releaseReservedStock 8 ''r'' 1 5000
        (inventory_releaseReservedStock 8 ''r'' 1 4000 reserved_item)) = 0 \<and>
   releaseReservedStock admin_user (Some reserved_item) 8 ''r'' 4000 = Inl ValidationError \<and>
   releaseReservedStock admin_user (Some reserved_item) 5 ''r'' 4000 =
     Inr (inventory_releaseReservedStock 5 ''r'' 1 4000 reserved_item) \<and>
   stock_reserved (inventory_releaseReservedStock 5 ''r'' 1 4000 reserved_item) = 0"
proof -
  have r: "stock_reserved reserved_item = 5"
    by (simp add: reserved_item_def)
  have a: "inventory_authorized admin_user reserved_item"
    by (simp add: inventory_authorized_def admin_user_def)
  have u: "user_id admin_user = 1" by (simp add: admin_user_def)
  note e1 = releaseReservedStock_effect [of 8 "''r''" 1 4000 reserved_item admin_user]
  note e2 = releaseReservedStock_effect [of 8 "''r''" 1 5000
      "inventory_releaseReservedStock 8 ''r'' 1 4000 reserved_item" admin_user]
  note e3 = releaseReservedStock_effect [of 5 "''r''" 1 4000 reserved_item admin_user]
  from e1 r have s1:
    "stock_reserved (inventory_releaseReservedStock 8 ''r'' 1 4000 reserved_item) = 0"
    by simp
  from e2 s1 have s2:
    "stock_reserved
       (inventory_releaseReservedStock 8 ''r'' 1 5000
          (inventory_releaseReservedStock 8 ''r'' 1 4000 reserved_item)) = 0"
    by simp
  from e1 r a have s3:
    "releaseReservedStock admin_user (Some reserved_item) 8 ''r'' 4000 = Inl ValidationError"
    by simp
  from e3 r a u have s4:
    "releaseReservedStock admin_user (Some reserved_item) 5 ''r'' 4000 =
       Inr (inventory_releaseReservedStock 5 ''r'' 1 4000 reserved_item) \<and>
     stock_reserved (inventory_releaseReservedStock 5 ''r'' 1 4000 reserved_item) = 0"
    by simp
  from s1 s2 s3 s4 show ?thesis by simp
qed

text \<open>
  Releasing more than is reserved is an error of the operation: with 5 units reserved,
  a release of 8 is refused.
\<close>

theorem releaseReservedStock_counterexample:
  "stock_reserved reserved_item = 5 \<and>
   releaseReservedStock admin_user (Some reserved_item) 8 ''order 17 shipped'' 4000 =
     Inl ValidationError"
  by (simp add: releaseReservedStock_def reserved_item_def sample_item_def admin_user_def
      inventory_authorized_def)

text \<open>
  C10. For every inventory item and every successful call of the method reserveStock
  (which succeeds exactly when the quantity does not exceed the available stock):
  stock.current is unchanged, stock.reserved grows by exactly the quantity, one movement
  of type \<open>out\<close> with that quantity and the reason prefixed \<open>Reserved: \<close> is appended to
  the ledger, and analytics.totalOut (like totalIn and lastSoldDate) is not updated.
\<close>

theorem reserveStock_effect:
  assumes "inventory_reserveStock q reason u now item = Inr item'"
  shows "q \<le> stockAvailable item \<and>
         stock_current item' = stock_current item \<and>
         stock_reserved item' = stock_reserved item + q \<and>
         movements item' = movements item @
           [ledger_entry Out q (''Reserved: '' @ reason) u None None now] \<and>
         analytics_totalOut item' = analytics_totalOut item \<and>
         analytics_totalIn item' = analytics_totalIn item \<and>
         analytics_lastSoldDate item' = analytics_lastSoldDate item"
  using assms
  by (auto simp: inventory_reserveStock_def ledger_entry_def pre_save_def Let_def
      split: if_splits)

text \<open>Reserving 8 of the sample item's 10 units.\<close>

theorem reserveStock_effect_witness:
  "inventory_reserveStock 8 ''order 17'' 1 1000 sample_item =
     Inr \<lparr>inv_owner = 7, stock_current = 10, stock_reserved = 8, stock_available = 2,
          stock_reorderPoint = 2, inv_status = LowStock,
          movements = [ledger_entry Out 8 ''Reserved: order 17'' 1 None None 1000],
          analytics_totalIn = 10, analytics_totalOut = 0, analytics_lastSoldDate = None,
          audit_lastModifiedAt = Some 1000, audit_version = 2\<rparr> \<and>
   analytics_totalOut sample_item = 0 \<and> stock_current sample_item = 10"
proof -
  have r: "inventory_reserveStock 8 ''order 17'' 1 1000 sample_item =
     Inr \<lparr>inv_owner = 7, stock_current = 10, stock_reserved = 8, stock_available = 2,
          stock_reorderPoint = 2, inv_status = LowStock,
          movements = [ledger_entry Out 8 ''Reserved: order 17'' 1 None None 1000],
          analytics_totalIn = 10, analytics_totalOut = 0, analytics_lastSoldDate = None,
          audit_lastModifiedAt = Some 1000, audit_version = 2\<rparr>"
    by (simp add: inventory_reserveStock_def stockAvailable_def sample_item_def
        ledger_entry_def pre_save_def Let_def)
  from reserveStock_effect [OF r] r show ?thesis
    by (simp add: sample_item_def)
qed

section \<open>Orders: status updates, assignment and cancellation\<close>

text \<open>
  C1, as the code has it. updateOrderStatus has no lifecycle table and never answers
  InvalidTransition. For every stored order, every caller who may update it (an
  administrator, a fleet manager or the order's assigned driver) and every requested
  status of the enum, whatever the order's current status (also a terminal one), it sets
  the status, appends a history entry with the status, the time, the caller, the notes and
  the location (marked not automatic), records the last known location when a location is
  given, and records the actual delivery time when the new status is delivered.
\<close>

theorem updateOrderStatus_effect:
  "fst (updateOrderStatus usr oid status notes loc now d) \<noteq> Inl InvalidTransition \<and>
   (db_orders d oid = Some ord \<and> canUpdate usr ord \<longrightarrow>
      (\<exists>ord'. updateOrderStatus usr oid status notes loc now d =
                 (Inr ord', d\<lparr>db_orders := (db_orders d)(oid \<mapsto> ord')\<rparr>) \<and>
         ord_status ord' = status \<and>
         tracking_statusHistory ord' = tracking_statusHistory ord @
           [\<lparr>su_status = status, su_timestamp = now, su_updatedBy = Some (user_id usr),
             su_notes = notes, su_location = loc, su_automatic = False\<rparr>] \<and>
         tracking_actualDeliveryTime ord' =
           (if status = Delivered then Some now else tracking_actualDeliveryTime ord) \<and>
         tracking_lastKnownLocation ord' =
           (case loc of None \<Rightarrow> tracking_lastKnownLocation ord | Some l \<Rightarrow> Some (l, now))))"
  by (auto simp: updateOrderStatus_def order_updateStatus_def canUpdate_def Let_def
      split: option.splits)

text \<open>An administrator moves the delivered order of the sample store to in-transit.\<close>

theorem updateOrderStatus_effect_witness:
  "canUpdate admin_user delivered_order \<and>
   ord_status delivered_order = Delivered \<and>
   tracking_actualDeliveryTime delivered_order = Some 900 \<and>
   fst (updateOrderStatus admin_user 4 InTransit (Some ''on the road'') None 5000 sample_db) =
     Inr (delivered_order\<lparr>ord_status := InTransit,
            tracking_statusHistory :=
              [\<lparr>su_status = InTransit, su_timestamp = 5000, su_updatedBy = Some 1,
                su_notes = Some ''on the road'', su_location = None,
                su_automatic = False\<rparr>]\<rparr>)"
proof -
  have f: "db_orders sample_db 4 = Some delivered_order"
    by (simp add: sample_db_def)
  have a: "canUpdate admin_user delivered_order"
    by (simp add: canUpdate_def admin_user_def)
  have s: "ord_status delivered_order = Delivered"
    "tracking_actualDeliveryTime delivered_order = Some 900"
    "tracking_statusHistory delivered_order = []"
    "tracking_lastKnownLocation delivered_order = None"
    by (simp_all add: delivered_order_def sample_order_def)
  have u: "user_id admin_user = 1" by (simp add: admin_user_def)
  from updateOrderStatus_effect
    [of admin_user 4 InTransit "Some ''on the road''" None 5000 sample_db delivered_order]
    f a
  obtain ord' where
    r: "updateOrderStatus admin_user 4 InTransit (Some ''on the road'') None 5000 sample_db =
          (Inr ord', sample_db\<lparr>db_orders := (db_orders sample_db)(4 \<mapsto> ord')\<rparr>)"
    and "ord_status ord' = InTransit"
    by blast
  have "fst (updateOrderStatus admin_user 4 InTransit (Some ''on the road'') None 5000
               sample_db) =
     Inr (delivered_order\<lparr>ord_status := InTransit,
            tracking_statusHistory :=
              [\<lparr>su_status = InTransit, su_timestamp = 5000, su_updatedBy = Some 1,
                su_notes = Some ''on the road'', su_location = None,
                su_automatic = False\<rparr>]\<rparr>)"
    using r f by (simp add: updateOrderStatus_def order_updateStatus_def Let_def u s a)
  with a s show ?thesis by simp
qed

text \<open>
  The transition delivered \<open>\<rightarrow>\<close> pending does not fail: the delivered order of the sample
  store is answered and stored with status pending.
\<close>

theorem updateOrderStatus_counterexample:
  "map_option ord_status (db_orders sample_db 4) = Some Delivered \<and>
   map_sum id ord_status
     (fst (updateOrderStatus admin_user 4 Pending None None 5000 sample_db)) = Inr Pending \<and>
   map_option ord_status
     (db_orders (snd (updateOrderStatus admin_user 4 Pending None None 5000 sample_db)) 4) =
     Some Pending"
  by (simp add: updateOrderStatus_def order_updateStatus_def canUpdate_def sample_db_def
      delivered_order_def sample_order_def admin_user_def Let_def)

text \<open>
  C5, as the code has it. For every assign call on a stored order the checks are, in this
  order: the driver exists and has the role driver (else a validation error), the vehicle
  exists and its status is available (else VehicleUnavailable), and the order's total
  weight does not exceed the vehicle's weight capacity (else CapacityExceeded); a failed
  check leaves the store, and so the Order and the Vehicle, unchanged. The order's status
  is not checked. When the checks pass, the order is stored with status assigned, the
  driver and the vehicle set, and an automatic history entry appended.
\<close>

theorem assignOrder_effect:
  assumes "db_orders d oid = Some ord"
  shows
    "(db_users d driverId = None \<longrightarrow>
        assignOrder oid driverId vehicleId now d = (Inl ValidationError, d)) \<and>
     (db_users d driverId = Some driver \<and> user_role driver \<noteq> Driver \<longrightarrow>
        assignOrder oid driverId vehicleId now d = (Inl ValidationError, d)) \<and>
     (db_users d driverId = Some driver \<and> user_role driver = Driver \<longrightarrow>
        (db_vehicles d vehicleId = None \<longrightarrow>
           assignOrder oid driverId vehicleId now d = (Inl VehicleUnavailable, d)) \<and>
        (db_vehicles d vehicleId = Some vh \<and> vh_status vh \<noteq> ''available'' \<longrightarrow>
           assignOrder oid driverId vehicleId now d = (Inl VehicleUnavailable, d)) \<and>
        (db_vehicles d vehicleId = Some vh \<and> vh_status vh = ''available'' \<and>
         cargo_totalWeight ord > capacity_weight vh \<longrightarrow>
           assignOrder oid driverId vehicleId now d = (Inl CapacityExceeded, d)) \<and>
        (db_vehicles d vehicleId = Some vh \<and> vh_status vh = ''available'' \<and>
         cargo_totalWeight ord \<le> capacity_weight vh \<longrightarrow>
           db_orders (snd (assignOrder oid driverId vehicleId now d)) oid =
             Some (ord\<lparr>ord_assignedDriver := Some driverId,
                        ord_assignedVehicle := Some vehicleId,
                        ord_status := Assigned,
                        tracking_statusHistory := tracking_statusHistory ord @
                          [\<lparr>su_status = Assigned, su_timestamp = now, su_updatedBy = None,
                            su_notes = None, su_location = None, su_automatic = True\<rparr>]\<rparr>)))"
  using assms
  by (auto simp: assignOrder_def order_assignDriverAndVehicle_def Let_def
      split: sum.splits)

text \<open>
  In the sample store: the order of 1200 kg on the vehicle of capacity 1000 kg, the same
  order on the vehicle in transit, the same order with the customer as its driver, and the
  order of 800 kg on the available vehicle.
\<close>

theorem assignOrder_effect_witness:
  "assignOrder 1 2 3 6000 sample_db = (Inl CapacityExceeded, sample_db) \<and>
   cargo_totalWeight sample_order = 1200 \<and> capacity_weight sample_vehicle = 1000 \<and>
   assignOrder 1 2 6 6000 sample_db = (Inl VehicleUnavailable, sample_db) \<and>
   assignOrder 1 9 3 6000 sample_db = (Inl ValidationError, sample_db) \<and>
   map_option ord_status (db_orders (snd (assignOrder 5 2 3 6000 sample_db)) 5) = Some Assigned"
proof -
  have o: "db_orders sample_db 1 = Some sample_order" "db_orders sample_db 5 = Some bound_order"
    by (simp_all add: sample_db_def)
  have u: "db_users sample_db 2 = Some driver_user" "user_role driver_user = Driver"
    "db_users sample_db 9 = Some customer_user" "user_role customer_user \<noteq> Driver"
    by (simp_all add: sample_db_def driver_user_def customer_user_def)
  have v: "db_vehicles sample_db 3 = Some sample_vehicle"
    "db_vehicles sample_db 6 = Some busy_vehicle"
    by (simp_all add: sample_db_def)
  have w: "cargo_totalWeight sample_order = 1200" "capacity_weight sample_vehicle = 1000"
    "vh_status sample_vehicle = ''available''" "vh_status busy_vehicle \<noteq> ''available''"
    "cargo_totalWeight bound_order = 800"
    by (simp_all add: sample_order_def sample_vehicle_def busy_vehicle_def bound_order_def)
  from assignOrder_effect
    [OF o(1), where driverId = 2 and driver = driver_user and vehicleId = 3
      and vh = sample_vehicle and now = 6000] u v w
  have a: "assignOrder 1 2 3 6000 sample_db = (Inl CapacityExceeded, sample_db)" by simp
  from assignOrder_effect
    [OF o(1), where driverId = 2 and driver = driver_user and vehicleId = 6
      and vh = busy_vehicle and now = 6000] u v w
  have b: "assignOrder 1 2 6 6000 sample_db = (Inl VehicleUnavailable, sample_db)" by simp
  from assignOrder_effect
    [OF o(1), where driverId = 9 and driver = customer_user and vehicleId = 3
      and now = 6000] u
  have c: "assignOrder 1 9 3 6000 sample_db = (Inl ValidationError, sample_db)" by simp
  from assignOrder_effect
    [OF o(2), where driverId = 2 and driver = driver_user and vehicleId = 3
      and vh = sample_vehicle and now = 6000] u v w
  have e: "map_option ord_status (db_orders (snd (assignOrder 5 2 3 6000 sample_db)) 5) =
    Some Assigned" by simp
  from a b c e w show ?thesis by simp
qed

text \<open>
  An order whose status is neither pending nor confirmed is assigned all the same: the
  delivered order of the sample store is stored with status assigned, bound to driver 2
  and vehicle 3.
\<close>

theorem assignOrder_counterexample:
  "map_option ord_status (db_orders sample_db 4) = Some Delivered \<and>
   map_option ord_status (db_orders (snd (assignOrder 4 2 3 6000 sample_db)) 4) =
     Some Assigned \<and>
   map_option ord_assignedVehicle (db_orders (snd (assignOrder 4 2 3 6000 sample_db)) 4) =
     Some (Some 3) \<and>
   map_option ord_assignedDriver (db_orders (snd (assignOrder 4 2 3 6000 sample_db)) 4) =
     Some (Some 2)"
  by (simp add: assignOrder_def order_assignDriverAndVehicle_def sample_db_def
      delivered_order_def sample_order_def sample_vehicle_def driver_user_def vehicle_save_def
      vehicle_status_enum_def Let_def)

text \<open>
  What happens after the checks of \<open>assignOrder\<close> have passed: the order has been saved
  as assigned; the vehicle is then given the status \<^verbatim>\<open>assigned\<close>, which the Vehicle
  schema's enum does not list, so saving the vehicle is rejected; the answer is that
  error, and the store holds the assigned order and the unchanged vehicle.
\<close>

theorem assignOrder_vehicle_save_rejected:
  assumes "db_orders d oid = Some ord"
    and "db_users d driverId = Some driver" and "user_role driver = Driver"
    and "db_vehicles d vehicleId = Some vh" and "vh_status vh = ''available''"
    and "cargo_totalWeight ord \<le> capacity_weight vh"
  shows "assignOrder oid driverId vehicleId now d =
           (Inl ValidationError,
            d\<lparr>db_orders := (db_orders d)
                 (oid \<mapsto> order_assignDriverAndVehicle driverId vehicleId now ord)\<rparr>)"
  using assms
  by (simp add: assignOrder_def vehicle_save_def vehicle_status_enum_def Let_def)

text \<open>The order of 800 kg and the available vehicle of the sample store.\<close>

theorem assignOrder_vehicle_save_rejected_witness:
  "fst (assignOrder 5 2 3 6000 sample_db) = Inl ValidationError \<and>
   db_vehicles (snd (assignOrder 5 2 3 6000 sample_db)) 3 = Some sample_vehicle \<and>
   vh_status sample_vehicle = ''available'' \<and>
   map_option ord_status (db_orders (snd (assignOrder 5 2 3 6000 sample_db)) 5) = Some Assigned"
proof -
  have h: "db_orders sample_db 5 = Some bound_order"
    "db_users sample_db 2 = Some driver_user" "user_role driver_user = Driver"
    "db_vehicles sample_db 3 = Some sample_vehicle" "vh_status sample_vehicle = ''available''"
    "cargo_totalWeight bound_order \<le> capacity_weight sample_vehicle"
    by (simp_all add: sample_db_def driver_user_def sample_vehicle_def bound_order_def)
  from assignOrder_vehicle_save_rejected [OF h, of 6000] h(4,5)
  show ?thesis
    by (simp add: order_assignDriverAndVehicle_def)
qed

text \<open>
  C6. For every stored order and every caller who may cancel it (an administrator, a fleet
  manager or the order's customer): cancel fails with InvalidTransition, changing nothing,
  when the order's status is delivered or cancelled; otherwise it succeeds, stores the
  order with status cancelled, with the cancellation record (time, caller, reason, a
  refund amount equal to pricing.totalAmount if the status was pending and 0 in every
  other status) and one more history entry, and, if a vehicle was bound to the order, the
  stored vehicle has status available and no assigned driver afterwards; every other
  vehicle is left as it was.
\<close>

theorem cancelOrder_effect:
  assumes "db_orders d oid = Some ord" and "canCancel usr ord"
  shows
    "(ord_status ord = Delivered \<or> ord_status ord = Cancelled \<longrightarrow>
        cancelOrder usr oid reason now d = (Inl InvalidTransition, d)) \<and>
     (ord_status ord \<noteq> Delivered \<and> ord_status ord \<noteq> Cancelled \<longrightarrow>
        (\<exists>ord'. fst (cancelOrder usr oid reason now d) = Inr ord' \<and>
           db_orders (snd (cancelOrder usr oid reason now d)) oid = Some ord' \<and>
           ord_status ord' = Cancelled \<and>
           ord_cancellation ord' = Some
             \<lparr>cancelledAt = now, cancelledBy = user_id usr, cancel_reason = reason,
              refundAmount = (if ord_status ord = Pending then pricing_totalAmount ord else 0),
              refundStatus =
                (if ord_status ord = Pending \<and> 0 < pricing_totalAmount ord
                 then Some RefundPending else None)\<rparr> \<and>
           tracking_statusHistory ord' = tracking_statusHistory ord @
             [\<lparr>su_status = Cancelled, su_timestamp = now, su_updatedBy = Some (user_id usr),
               su_notes = reason, su_location = None, su_automatic = False\<rparr>]) \<and>
        (ord_assignedVehicle ord = Some vid \<and> db_vehicles d vid = Some vh \<longrightarrow>
           db_vehicles (snd (cancelOrder usr oid reason now d)) vid =
             Some (vh\<lparr>vh_status := ''available'', vh_assignedDriver := None\<rparr>)) \<and>
        (ord_assignedVehicle ord \<noteq> Some vid \<longrightarrow>
           db_vehicles (snd (cancelOrder usr oid reason now d)) vid = db_vehicles d vid))"
  using assms
  by (auto simp: cancelOrder_def order_cancelOrder_def vehicle_save_def
      vehicle_status_enum_def Let_def split: option.splits)

text \<open>
  In the sample store the customer cancels the pending order of total amount 115 that
  holds vehicle 6: the refund is 115 and the vehicle is available again; cancelling the
  delivered order fails.
\<close>

theorem cancelOrder_effect_witness:
  "map_sum id (map_option refundAmount \<circ> ord_cancellation)
     (fst (cancelOrder customer_user 5 (Some ''changed my mind'') 7000 sample_db)) =
     Inr (Some 115) \<and>
   db_vehicles sample_db 6 = Some busy_vehicle \<and> vh_status busy_vehicle = ''in-transit'' \<and>
   db_vehicles (snd (cancelOrder customer_user 5 (Some ''changed my mind'') 7000 sample_db)) 6 =
     Some sample_vehicle \<and>
   cancelOrder admin_user 4 None 7000 sample_db = (Inl InvalidTransition, sample_db)"
proof -
  have o: "db_orders sample_db 5 = Some bound_order" "db_orders sample_db 4 = Some delivered_order"
    by (simp_all add: sample_db_def)
  have c: "canCancel customer_user bound_order" "canCancel admin_user delivered_order"
    by (simp_all add: canCancel_def customer_user_def admin_user_def bound_order_def
        sample_order_def)
  have v: "db_vehicles sample_db 6 = Some busy_vehicle" "vh_status busy_vehicle = ''in-transit''"
    "busy_vehicle\<lparr>vh_status := ''available'', vh_assignedDriver := None\<rparr> = sample_vehicle"
    by (simp_all add: sample_db_def busy_vehicle_def sample_vehicle_def)
  have s: "ord_status bound_order = Pending" "pricing_totalAmount bound_order = 115"
    "ord_assignedVehicle bound_order = Some 6" "ord_status delivered_order = Delivered"
    by (simp_all add: bound_order_def delivered_order_def sample_order_def)
  note e1 = cancelOrder_effect
    [OF o(1) c(1), where reason = "Some ''changed my mind''" and now = 7000 and vid = 6
      and vh = busy_vehicle]
  note e2 = cancelOrder_effect [OF o(2) c(2), where reason = None and now = 7000]
  from e1 s v have
    "map_sum id (map_option refundAmount \<circ> ord_cancellation)
       (fst (cancelOrder customer_user 5 (Some ''changed my mind'') 7000 sample_db)) =
       Inr (Some 115)"
    by auto
  moreover from e1 s v have
    "db_vehicles (snd (cancelOrder customer_user 5 (Some ''changed my mind'') 7000 sample_db))
       6 = Some sample_vehicle"
    by simp
  moreover from e2 s have
    "cancelOrder admin_user 4 None 7000 sample_db = (Inl InvalidTransition, sample_db)"
    by simp
  ultimately show ?thesis using v by simp
qed

section \<open>Routes: completion and waypoint optimization\<close>

text \<open>
  C9, as the code has it. For every stored route and every caller who may complete it (the
  assigned driver or an administrator): complete fails with InvalidTransition, changing
  nothing, unless the route's status is in-progress; otherwise it succeeds and stores the
  route with status completed and the current time as actualEndTime. When the route has
  a recorded actualStartTime it also sets metrics.actualDuration to the whole minutes of
  actualEndTime - actualStartTime and metrics.delayTime to max(0, actualDuration - the
  whole minutes of plannedEndTime - plannedStartTime); when it has none, both metrics
  are left as they were.
\<close>

theorem completeRoute_effect:
  assumes "db_routes d rid = Some r"
    and "rt_assignedDriver r = Some (user_id usr) \<or> user_role usr = Admin"
  shows
    "(rt_status r \<noteq> RInProgress \<longrightarrow>
        completeRoute usr rid completionNotes issues now d = (Inl InvalidTransition, d)) \<and>
     (rt_status r = RInProgress \<longrightarrow>
        (\<exists>r'. fst (completeRoute usr rid completionNotes issues now d) = Inr r' \<and>
           db_routes (snd (completeRoute usr rid completionNotes issues now d)) rid = Some r' \<and>
           rt_status r' = RCompleted \<and>
           actualEndTime r' = Some now \<and>
           (actualStartTime r = Some start \<longrightarrow>
              metrics_actualDuration r' = Some ((now - start) div 60000) \<and>
              metrics_delayTime r' =
                Some (max 0 ((now - start) div 60000 -
                             (plannedEndTime r - plannedStartTime r) div 60000))) \<and>
           (actualStartTime r = None \<longrightarrow>
              metrics_actualDuration r' = metrics_actualDuration r \<and>
              metrics_delayTime r' = metrics_delayTime r)))"
  using assms
  by (auto simp: completeRoute_def route_completeRoute_def vehicle_save_def
      vehicle_status_enum_def Let_def split: option.splits)

text \<open>
  The sample route, planned 10:00 to 12:00 and started at 10:00, is completed by its driver
  at 12:30: the actual duration is 150 minutes and the delay 30 minutes.
\<close>

theorem completeRoute_effect_witness:
  "(plannedEndTime sample_route - plannedStartTime sample_route) div 60000 = 120 \<and>
   map_sum id metrics_actualDuration
     (fst (completeRoute driver_user 10 None [] 45000000 sample_db)) = Inr (Some 150) \<and>
   map_sum id metrics_delayTime
     (fst (completeRoute driver_user 10 None [] 45000000 sample_db)) = Inr (Some 30) \<and>
   map_sum id rt_status
     (fst (completeRoute driver_user 10 None [] 45000000 sample_db)) = Inr RCompleted"
proof -
  have f: "db_routes sample_db 10 = Some sample_route" by (simp add: sample_db_def)
  have a: "rt_assignedDriver sample_route = Some (user_id driver_user) \<or>
           user_role driver_user = Admin"
    by (simp add: sample_route_def driver_user_def)
  have s: "rt_status sample_route = RInProgress" "actualStartTime sample_route = Some 36000000"
    "plannedEndTime sample_route = 43200000" "plannedStartTime sample_route = 36000000"
    by (simp_all add: sample_route_def)
  from completeRoute_effect
    [OF f a, where completionNotes = None and issues = "[]" and now = 45000000 and start = 36000000] s
  show ?thesis by auto
qed

text \<open>
  A route in progress without a recorded start (route 11 of the sample store) is completed
  successfully and no duration is computed: metrics.actualDuration and metrics.delayTime
  stay unset.
\<close>

theorem completeRoute_counterexample:
  "map_option rt_status (db_routes sample_db 11) = Some RInProgress \<and>
   map_sum id rt_status
     (fst (completeRoute driver_user 11 None [] 45000000 sample_db)) = Inr RCompleted \<and>
   map_sum id actualEndTime
     (fst (completeRoute driver_user 11 None [] 45000000 sample_db)) = Inr (Some 45000000) \<and>
   map_sum id metrics_actualDuration
     (fst (completeRoute driver_user 11 None [] 45000000 sample_db)) = Inr None \<and>
   map_sum id metrics_delayTime
     (fst (completeRoute driver_user 11 None [] 45000000 sample_db)) = Inr None"
  by (simp add: completeRoute_def route_completeRoute_def sample_db_def unstarted_route_def
      sample_route_def driver_user_def busy_vehicle_def sample_vehicle_def vehicle_save_def
      vehicle_status_enum_def Let_def)

lemma length_reindex [simp]: "length (reindex i ws) = length ws"
  by (induction ws arbitrary: i) simp_all

lemma spread_order_undefined [simp]:
  "obj_type (spread_order w k) = None" "obj_location (spread_order w k) = None"
  "obj_order (spread_order w k) = k" "obj_doc (spread_order w k) = obj_doc w"
  by (cases w; simp)+

lemma spread_order_twice [simp]: "spread_order (spread_order w j) k = spread_order w k"
  by (cases w) simp_all

lemma order_reindex: "map obj_order (reindex i ws) = map (\<lambda>k. int k + 1) [i..<i + length ws]"
proof (induction ws arbitrary: i)
  case Nil
  show ?case by simp
next
  case (Cons w ws)
  have "i < i + length (w # ws)" by simp
  then have "[i..<i + length (w # ws)] = i # [Suc i..<i + length (w # ws)]"
    by (rule upt_conv_Cons)
  then have "[i..<i + length (w # ws)] = i # [Suc i..<Suc i + length ws]"
    by simp
  with Cons.IH [of "Suc i"] show ?case by simp
qed

lemma doc_reindex: "map obj_doc (reindex i ws) = map obj_doc ws"
  by (induction ws arbitrary: i) simp_all

lemma type_reindex: "map obj_type (reindex i ws) = replicate (length ws) None"
  by (induction ws arbitrary: i) simp_all

lemma location_reindex: "map obj_location (reindex i ws) = replicate (length ws) None"
  by (induction ws arbitrary: i) simp_all






lemma length_grouped [simp]: "length (grouped ws) = length ws"
  by (induction ws) (auto simp: grouped_def)

lemma optimizeWaypoints_subdocuments:
  "optimizeWaypoints (map Subdocument ws) = reindex 0 (map Subdocument (grouped ws))"
  by (simp add: optimizeWaypoints_def grouped_def Let_def filter_map comp_def)

lemma sum_legs_reindex:
  "2 \<le> length ws \<Longrightarrow> sum_legs calculateDistance acc (reindex i ws) = Inl TypeError"
proof -
  assume "2 \<le> length ws"
  then obtain a b rest where "ws = a # b # rest"
    by (cases ws; cases "tl ws") auto
  then show ?thesis by simp
qed

lemma calculateRouteMetrics_subdocuments:
  assumes "2 \<le> length ws"
  shows "calculateRouteMetrics calculateDistance (optimizeWaypoints (map Subdocument ws)) =
         Inl TypeError"
proof -
  from assms have "2 \<le> length (map Subdocument (grouped ws))" by simp
  then have "sum_legs calculateDistance 0 (reindex 0 (map Subdocument (grouped ws))) =
             Inl TypeError"
    by (rule sum_legs_reindex)
  then show ?thesis
    by (simp add: calculateRouteMetrics_def optimizeWaypoints_subdocuments)
qed

text \<open>
  C7, on the code. \<open>optimizeRoute\<close> calls \<open>optimizeWaypoints\<close> on the subdocuments of a
  stored route. For every such list the returned objects are in the order pickups,
  deliveries, others (each group in the relative order of the input) and carry the order
  indices 1, 2, ..., n, but they are spreads of subdocuments: the waypoint's values are
  under \<^verbatim>\<open>_doc\<close>, and the type and the location of every returned object are undefined.
  So for two or more waypoints \<open>calculateRouteMetrics\<close> throws on the result, and
  \<open>optimizeRoute\<close> answers with that exception: no reordered waypoint list is produced
  for the route.
\<close>

theorem optimizeWaypoints_on_subdocuments:
  "map obj_doc (optimizeWaypoints (map Subdocument ws)) = grouped ws \<and>
   map obj_order (optimizeWaypoints (map Subdocument ws)) = map int [1..<length ws + 1] \<and>
   map obj_type (optimizeWaypoints (map Subdocument ws)) = replicate (length ws) None \<and>
   map obj_location (optimizeWaypoints (map Subdocument ws)) = replicate (length ws) None \<and>
   (2 \<le> length ws \<longrightarrow>
      calculateRouteMetrics calculateDistance (optimizeWaypoints (map Subdocument ws)) =
        Inl TypeError) \<and>
   (2 \<le> length (rt_waypoints r) \<and> canOptimize usr r \<longrightarrow>
      optimizeRoute calculateDistance castWaypoints usr (Some r) = Inl TypeError)"
proof -
  let ?out = "\<lambda>ws. optimizeWaypoints (map Subdocument ws)"
  have d: "map obj_doc (?out ws) = grouped ws"
    by (simp add: optimizeWaypoints_subdocuments doc_reindex comp_def)
  have "map obj_order (?out ws) = map (\<lambda>k. int k + 1) [0..<length ws]"
    using order_reindex [of 0 "map Subdocument (grouped ws)"]
    by (simp add: optimizeWaypoints_subdocuments)
  also have "\<dots> = map int (map Suc [0..<length ws])"
    by simp
  also have "map Suc [0..<length ws] = [1..<length ws + 1]"
    by (simp add: map_Suc_upt)
  finally have o: "map obj_order (?out ws) = map int [1..<length ws + 1]" .
  have t: "map obj_type (?out ws) = replicate (length ws) None"
    by (simp add: optimizeWaypoints_subdocuments type_reindex)
  have l: "map obj_location (?out ws) = replicate (length ws) None"
    by (simp add: optimizeWaypoints_subdocuments location_reindex)
  note m = calculateRouteMetrics_subdocuments
  have c: "2 \<le> length (rt_waypoints r) \<and> canOptimize usr r \<longrightarrow>
           optimizeRoute calculateDistance castWaypoints usr (Some r) = Inl TypeError"
    using m [of "rt_waypoints r" calculateDistance] by (simp add: optimizeRoute_def Let_def)
  from d o t l m [of ws calculateDistance] c show ?thesis by simp
qed

text \<open>
  The four waypoints of the sample route (shop: delivery, farm: pickup, station: fuel
  stop, depot: pickup): the returned objects hold farm, depot, shop, station under
  \<^verbatim>\<open>_doc\<close> with the orders 1 to 4 and no type; an administrator's request to optimize the
  route is answered with the exception.
\<close>

theorem optimizeWaypoints_on_subdocuments_witness:
  "map wp_address sample_waypoints = [''shop'', ''farm'', ''station'', ''depot''] \<and>
   map (wp_address \<circ> obj_doc) (optimizeWaypoints (map Subdocument sample_waypoints)) =
     [''farm'', ''depot'', ''shop'', ''station''] \<and>
   map obj_order (optimizeWaypoints (map Subdocument sample_waypoints)) = [1, 2, 3, 4] \<and>
   map obj_type (optimizeWaypoints (map Subdocument sample_waypoints)) =
     [None, None, None, None] \<and>
   optimizeRoute grid_distance doc_cast admin_user (Some sample_route) = Inl TypeError"
proof -
  note c = optimizeWaypoints_on_subdocuments
    [of sample_waypoints grid_distance sample_route admin_user doc_cast]
  have l: "length sample_waypoints = 4" "rt_waypoints sample_route = sample_waypoints"
    by (simp_all add: sample_waypoints_def sample_route_def)
  have a: "canOptimize admin_user sample_route"
    by (simp add: canOptimize_def admin_user_def)
  have u: "[1..<length sample_waypoints + 1] = [1, 2, 3, 4]"
    unfolding l by (simp add: upt_conv_Cons)
  have r: "replicate (length sample_waypoints) (None :: waypoint_type option) =
           [None, None, None, None]"
    unfolding l by (simp add: numeral_eq_Suc)
  have g: "map wp_address (grouped sample_waypoints) = [''farm'', ''depot'', ''shop'', ''station'']"
    by (simp add: grouped_def sample_waypoints_def)
  from c have "map obj_doc (optimizeWaypoints (map Subdocument sample_waypoints)) =
               grouped sample_waypoints"
    by simp
  then have "map wp_address (map obj_doc (optimizeWaypoints (map Subdocument sample_waypoints))) =
             [''farm'', ''depot'', ''shop'', ''station'']"
    by (simp only: g)
  then have d: "map (wp_address \<circ> obj_doc) (optimizeWaypoints (map Subdocument sample_waypoints)) =
                [''farm'', ''depot'', ''shop'', ''station'']"
    by simp
  from c u have o: "map obj_order (optimizeWaypoints (map Subdocument sample_waypoints)) =
                    [1, 2, 3, 4]"
    by simp
  from c r have t: "map obj_type (optimizeWaypoints (map Subdocument sample_waypoints)) =
                    [None, None, None, None]"
    by simp
  from c l a have e: "optimizeRoute grid_distance doc_cast admin_user (Some sample_route) =
                      Inl TypeError"
    by simp
  have "map wp_address sample_waypoints = [''shop'', ''farm'', ''station'', ''depot'']"
    by (simp add: sample_waypoints_def)
  with d o t e show ?thesis by simp
qed



end
